theory Spec2Isabelle
  imports Main
begin

section \<open>The test run orchestrator of freeCodeCampOS\<close>

text \<open>
  A shallow embedding of \<^verbatim>\<open>runTests\<close>, \<^verbatim>\<open>workerMessage\<close>, \<^verbatim>\<open>checkTestsCallback\<close>,
  \<^verbatim>\<open>handleWorkerExit\<close> and \<^verbatim>\<open>removeWorkerFromPool\<close> of the test tooling module.

  The module is asynchronous JavaScript on a single cooperative thread. Each callback is
  modelled as a function on an explicit world: the process-wide \<^verbatim>\<open>WORKER_POOL\<close>, and
  the trace of the calls made to the collaborators (logger, client socket, plugin events,
  state store, hook backends, worker threads), in program order. The array
  \<^verbatim>\<open>testsState\<close> is a local of \<^verbatim>\<open>runTests\<close> that its callbacks share and mutate; it is
  passed to each function and returned updated. The socket \<^verbatim>\<open>ws\<close> is the same in every
  call and is left out of the events.

  What a collaborator answers is a parameter (the record \<open>env\<close>): whether the code of a
  hook throws, what the localization function returns, what the clock reads. The
  notification calls themselves (plugin events, socket updates, state store) are recorded
  and taken to return normally. The code of a hook is opaque: its execution is an event,
  and it is taken not to touch \<^verbatim>\<open>testsState\<close> or the pool. A callback runs to its end
  before the next one starts: what another callback could do at an \<^verbatim>\<open>await\<close> is reached
  by calling the callbacks one after the other.
\<close>

subsection \<open>Data\<close>

text \<open>A hook is \<^verbatim>\<open>{ runner: string; code: string } | null\<close>; \<open>None\<close> is \<^verbatim>\<open>null\<close>.\<close>

record hook =
  runner :: string
  code :: string

text \<open>
  A test has the fields of a hook and its \<^verbatim>\<open>text\<close> (the field \<open>text'\<close>: \<open>text\<close> is a
  keyword).
\<close>

record test = hook +
  text' :: string

record lesson =
  beforeAll :: "hook option"
  beforeEach :: "hook option"
  afterAll :: "hook option"
  afterEach :: "hook option"
  hints :: "string list"
  tests :: "test list"

record project =
  dashedName :: string
  currentLesson :: int
  blockingTests :: bool
  isIntegrated :: bool
  numberOfLessons :: int

record testState =
  passed :: bool
  testText :: string
  testId :: nat
  isLoading :: bool

text \<open>
  The \<^verbatim>\<open>error\<close> object of a worker message; \<open>None\<close> in a field is \<^verbatim>\<open>undefined\<close>.
\<close>

record workerError =
  etype :: "string option"
  emessage :: "string option"

text \<open>The message a worker posts back: \<^verbatim>\<open>{ passed, testId, error }\<close>.\<close>

record message =
  msgPassed :: bool
  msgTestId :: nat
  msgError :: "workerError option"

text \<open>Exceptions of the module, as values.\<close>

datatype error = TypeError string | Error string

text \<open>
  A worker handle. \<open>wid\<close> stands for the identity of the JavaScript object (what
  \<^verbatim>\<open>indexOf\<close> compares); the name is \<^verbatim>\<open>'blocking-worker'\<close> or \<^verbatim>\<open>`worker-${i}`\<close>; \<open>wrunner\<close>
  selects the script \<^verbatim>\<open>`${runner}.js`\<close>.
\<close>

datatype workerName = BlockingWorker | WorkerN nat

record worker =
  wid :: nat
  wname :: workerName
  wrunner :: string
  exited :: bool

datatype errorPayload = ErrObj workerError | ErrStr string

datatype console = ConsoleText string | ConsoleError testState errorPayload

datatype configPatch = CompletedDate int | CurrentLesson int

datatype event =
    LogDebug string
  | LogError string
  | LogErrorE error
  | LogTestError nat workerError
  | Eval string
  | RunPython string
  | OnTestsStart project "testState list"
  | OnTestsEnd project "testState list"
  | OnLessonPassed project
  | OnLessonFailed project
  | OnProjectFinished project
  | UpdateTests "testState list"
  | UpdateTest testState
  | UpdateConsole console
  | UpdateHints "string list"
  | ResetBottomPanel
  | HandleProjectFinish
  | SetProjectConfig string configPatch
  | RunLesson string
  | CreateWorker worker
  | PostMessage nat string nat

record world =
  trace :: "event list"
  WORKER_POOL :: "worker list"
  nextWid :: nat

text \<open>
  The answers of the collaborators: \<open>evalNode c\<close> and \<open>runPython c\<close> give the exception
  the hook code \<open>c\<close> throws (\<open>None\<close> when it completes), \<open>translate\<close> is the function
  \<^verbatim>\<open>t\<close> of the localization module (\<open>None\<close> is \<^verbatim>\<open>undefined\<close>), \<open>now\<close> is \<^verbatim>\<open>Date.now()\<close>.
\<close>

record env =
  evalNode :: "string \<Rightarrow> error option"
  runPython :: "string \<Rightarrow> error option"
  translate :: "string \<Rightarrow> string option"
  now :: int

definition emit :: "event list \<Rightarrow> world \<Rightarrow> world" where
  "emit evs w = w\<lparr>trace := trace w @ evs\<rparr>"

subsection \<open>Hooks\<close>

text \<open>
  The \<^verbatim>\<open>switch\<close> on the runner of a hook: the calls made, and the exception thrown if any.
\<close>

definition hookSwitch :: "env \<Rightarrow> hook \<Rightarrow> event list \<times> error option" where
  "hookSwitch env h =
     (if runner h = ''Node'' then ([Eval (code h)], evalNode env (code h))
      else if runner h = ''Python'' then ([RunPython (code h)], runPython env (code h))
      else ([], Some (Error (''Unsupported runner: '' @ runner h))))"

text \<open>
  The guarded \<^verbatim>\<open>try\<close>/\<^verbatim>\<open>catch\<close> block around a hook. The source writes it three times
  (before-all, after-all, after-each); the copies differ in the label of the log lines only.
\<close>

definition runHook :: "env \<Rightarrow> string \<Rightarrow> hook option \<Rightarrow> event list" where
  "runHook env label hk =
     (case hk of
        None \<Rightarrow> []
      | Some h \<Rightarrow>
          LogDebug (''Starting: --'' @ label @ ''-- hook'') #
          (case hookSwitch env h of
             (evs, None) \<Rightarrow> evs @ [LogDebug (''Finished: --'' @ label @ ''-- hook'')]
           | (evs, Some e) \<Rightarrow>
               evs @ [LogError (''--'' @ label @ ''-- hook failed to run:''), LogErrorE e]))"

subsection \<open>The aggregation check\<close>

definition checkTestsCallback ::
  "env \<Rightarrow> project \<Rightarrow> string list \<Rightarrow> int \<Rightarrow> testState list \<Rightarrow> hook option \<Rightarrow> world \<Rightarrow> world" where
  "checkTestsCallback env project hints' lessonNumber testsState afterAll' w =
     (let w1 =
        (if list_all passed testsState then
           (let w0 = emit [OnLessonPassed project, ResetBottomPanel] w in
            if isIntegrated project \<or> lessonNumber = numberOfLessons project - 1 then
              emit [OnProjectFinished project,
                    SetProjectConfig (dashedName project) (CompletedDate (now env)),
                    HandleProjectFinish] w0
            else
              emit [SetProjectConfig (dashedName project) (CurrentLesson (lessonNumber + 1)),
                    RunLesson (dashedName project)] w0)
         else emit [OnLessonFailed project, UpdateHints hints'] w);
        allTestsFinished = list_all (\<lambda>test. \<not> isLoading test) testsState
      in if allTestsFinished then
           (emit (runHook env ''after-all'' afterAll' @ [OnTestsEnd project testsState]) w1)
             \<lparr>WORKER_POOL := []\<rparr>
         else w1)"

subsection \<open>Worker exit\<close>

text \<open>
  The \<^verbatim>\<open>forEach\<close> of the blocking branch: every test still loading is settled as failed and
  a console error is published for it.
\<close>

fun cancelLoading :: "testState list \<Rightarrow> testState list \<times> event list" where
  "cancelLoading [] = ([], [])"
| "cancelLoading (test # rest) =
     (let (rest', evs) = cancelLoading rest in
      if isLoading test then
        (let test' = test\<lparr>isLoading := False, passed := False\<rparr> in
         (test' # rest', UpdateConsole (ConsoleError test' (ErrStr ''Tests cancelled.'')) # evs))
      else (test # rest', evs))"

text \<open>
  The block under \<^verbatim>\<open>exitCode === 1\<close>. \<open>i\<close> is \<open>None\<close> when the caller passes no index
  (the blocking worker). An index outside the array makes \<^verbatim>\<open>testsState[i]\<close> undefined,
  and the assignment to its field throws.
\<close>

definition cancelTests ::
  "int \<Rightarrow> testState list \<Rightarrow> nat option \<Rightarrow> error + (testState list \<times> event list)" where
  "cancelTests exitCode testsState i =
     (if exitCode = 1 then
        (case i of
           Some k \<Rightarrow>
             if k < length testsState then
               (let ts = testsState[k := (testsState ! k)\<lparr>isLoading := False, passed := False\<rparr>] in
                Inr (ts, [UpdateConsole (ConsoleError (ts ! k) (ErrStr ''Tests cancelled.'')),
                          UpdateTests ts]))
             else Inl (TypeError ''Cannot set properties of undefined (setting isLoading)'')
         | None \<Rightarrow>
             (let (ts, evs) = cancelLoading testsState in Inr (ts, evs @ [UpdateTests ts])))
      else Inr (testsState, []))"

definition handleWorkerExit ::
  "env \<Rightarrow> int \<Rightarrow> testState list \<Rightarrow> nat option \<Rightarrow> hook option \<Rightarrow> project \<Rightarrow> string list \<Rightarrow> int \<Rightarrow>
   hook option \<Rightarrow> world \<Rightarrow> error + (testState list \<times> world)" where
  "handleWorkerExit env exitCode testsState i afterEach' project hints' lessonNumber afterAll' w =
     (case cancelTests exitCode testsState i of
        Inl e \<Rightarrow> Inl e
      | Inr (ts, evs) \<Rightarrow>
          (let w1 = emit evs w;
               w2 = emit (runHook env ''after-each'' afterEach') w1
           in Inr (ts, checkTestsCallback env project hints' lessonNumber ts afterAll' w2)))"

subsection \<open>The worker pool\<close>

text \<open>\<^verbatim>\<open>WORKER_POOL.indexOf(worker)\<close>: the first position holding this handle, or \<open>-1\<close>.\<close>

fun indexOf :: "worker list \<Rightarrow> worker \<Rightarrow> int" where
  "indexOf [] x = -1"
| "indexOf (v # vs) x =
     (if wid v = wid x then 0
      else (let r = indexOf vs x in if r = -1 then -1 else r + 1))"

definition removeWorkerFromPool :: "worker \<Rightarrow> world \<Rightarrow> world" where
  "removeWorkerFromPool x w =
     (let index = indexOf (WORKER_POOL w) x in
      if index > -1 then
        w\<lparr>WORKER_POOL := take (nat index) (WORKER_POOL w) @ drop (nat index + 1) (WORKER_POOL w)\<rparr>
      else w)"

text \<open>
  The \<^verbatim>\<open>'exit'\<close> listener of a worker: the handle is flagged (the pool holds the same
  object), taken out of the pool, and the exit is handled.
\<close>

definition onExit ::
  "env \<Rightarrow> worker \<Rightarrow> int \<Rightarrow> testState list \<Rightarrow> nat option \<Rightarrow> hook option \<Rightarrow> project \<Rightarrow> string list \<Rightarrow>
   int \<Rightarrow> hook option \<Rightarrow> world \<Rightarrow> error + (testState list \<times> world)" where
  "onExit env x exitCode testsState i afterEach' project hints' lessonNumber afterAll' w =
     (let w1 = w\<lparr>WORKER_POOL :=
                  map (\<lambda>v. if wid v = wid x then v\<lparr>exited := True\<rparr> else v) (WORKER_POOL w)\<rparr>;
          w2 = removeWorkerFromPool x w1
      in handleWorkerExit env exitCode testsState i afterEach' project hints' lessonNumber afterAll' w2)"

subsection \<open>Worker messages\<close>

text \<open>
  \<^verbatim>\<open>assertionTranslation || error.message\<close> under \<^verbatim>\<open>if (error.message)\<close>: the empty string
  is falsy on both sides.
\<close>

definition translateError :: "env \<Rightarrow> workerError \<Rightarrow> workerError" where
  "translateError env err =
     (case emessage err of
        None \<Rightarrow> err
      | Some m \<Rightarrow>
          if m = [] then err
          else (case translate env m of
                  None \<Rightarrow> err
                | Some tr \<Rightarrow> if tr = [] then err else err\<lparr>emessage := Some tr\<rparr>))"

definition workerMessage ::
  "env \<Rightarrow> project \<Rightarrow> string list \<Rightarrow> int \<Rightarrow> hook option \<Rightarrow> testState list \<Rightarrow> message \<Rightarrow> world \<Rightarrow>
   error + (testState list \<times> world)" where
  "workerMessage env project hints' lessonNumber afterAll' testsState m w =
     (let k = msgTestId m in
      if k < length testsState then
        (let ts = testsState[k := (testsState ! k)\<lparr>isLoading := False, passed := msgPassed m\<rparr>];
             evs =
               (case msgError m of
                  None \<Rightarrow> []
                | Some err \<Rightarrow>
                    (if etype err \<noteq> Some ''AssertionError'' then [LogTestError k err] else []) @
                    [UpdateConsole (ConsoleError (ts ! k) (ErrObj (translateError env err)))]);
             w1 = emit (evs @ [UpdateTest (ts ! k)]) w
         in Inr (ts, checkTestsCallback env project hints' lessonNumber ts afterAll' w1))
      else Inl (TypeError ''Cannot set properties of undefined (setting isLoading)''))"

subsection \<open>Starting a run\<close>

text \<open>
  \<^verbatim>\<open>[beforeAll, beforeEach, afterAll, afterEach, ...tests]\<close>: of each entry, only the
  field \<^verbatim>\<open>runner\<close> is read.
\<close>

definition testers :: "lesson \<Rightarrow> hook option list" where
  "testers l =
     [beforeAll l, beforeEach l, afterAll l, afterEach l] @
     map (\<lambda>t. Some (hook.truncate t)) (tests l)"

text \<open>
  \<^verbatim>\<open>testers.filter(t => t !== null).at(0).runner\<close>: on an empty array \<^verbatim>\<open>at(0)\<close> is
  undefined and reading its field throws.
\<close>

definition resolveFirstRunner :: "hook option list \<Rightarrow> error + string" where
  "resolveFirstRunner ts =
     (case filter (\<lambda>t. t \<noteq> None) ts of
        [] \<Rightarrow> Inl (TypeError ''Cannot read properties of undefined (reading runner)'')
      | t # _ \<Rightarrow>
          (case t of
             None \<Rightarrow> Inl (TypeError ''Cannot read properties of null (reading runner)'')
           | Some h \<Rightarrow> Inr (runner h)))"

text \<open>The loop over the testers: the exception it throws, if any.\<close>

fun checkRunners :: "string \<Rightarrow> hook option list \<Rightarrow> error option" where
  "checkRunners firstRunner [] = None"
| "checkRunners firstRunner (tester # rest) =
     (case tester of
        None \<Rightarrow> checkRunners firstRunner rest
      | Some h \<Rightarrow>
          if runner h \<noteq> firstRunner then
            Some (Error (''All tests and hooks must use the same runner. Found: '' @ runner h @
                         '', expected: '' @ firstRunner))
          else checkRunners firstRunner rest)"

definition initialState :: "project \<Rightarrow> test list \<Rightarrow> testState list" where
  "initialState project ts =
     map (\<lambda>(i, t). \<lparr>passed = False, testText = text' t, testId = i,
                    isLoading = \<not> blockingTests project\<rparr>)
       (enumerate 0 ts)"

text \<open>\<^verbatim>\<open>new Worker(...)\<close>: a fresh handle.\<close>

definition createWorker :: "workerName \<Rightarrow> string \<Rightarrow> world \<Rightarrow> worker \<times> world" where
  "createWorker name runner' w =
     (let x = \<lparr>wid = nextWid w, wname = name, wrunner = runner', exited = False\<rparr>
      in (x, (emit [CreateWorker x] w)\<lparr>nextWid := nextWid w + 1\<rparr>))"

text \<open>The loop of the blocking branch: every test is posted to the one worker \<open>x\<close>.\<close>

fun postTests ::
  "nat \<Rightarrow> (nat \<times> test) list \<Rightarrow> testState list \<times> world \<Rightarrow> testState list \<times> world" where
  "postTests x [] (ts, w) = (ts, w)"
| "postTests x ((i, t) # rest) (ts, w) =
     (let ts1 = ts[i := (ts ! i)\<lparr>isLoading := True\<rparr>];
          w1 = emit [UpdateTest (ts1 ! i), PostMessage x (code t) i] w
      in postTests x rest (ts1, w1))"

text \<open>The loop of the parallel branch: one worker for each test.\<close>

fun spawnTests :: "(nat \<times> test) list \<Rightarrow> testState list \<times> world \<Rightarrow> testState list \<times> world" where
  "spawnTests [] (ts, w) = (ts, w)"
| "spawnTests ((i, t) # rest) (ts, w) =
     (let ts1 = ts[i := (ts ! i)\<lparr>isLoading := True\<rparr>];
          w1 = emit [UpdateTest (ts1 ! i)] w;
          (x, w2) = createWorker (WorkerN i) (runner t) w1;
          w3 = w2\<lparr>WORKER_POOL := WORKER_POOL w2 @ [x]\<rparr>;
          w4 = emit [PostMessage (wid x) (code t) i] w3
      in spawnTests rest (ts1, w4))"

text \<open>
  The body of the \<^verbatim>\<open>try\<close> block of \<^verbatim>\<open>runTests\<close>, for the project and the lesson that
  the collaborators returned. Both \<^verbatim>\<open>throw\<close> sites precede every effect. The loops index
  \<^verbatim>\<open>testsState\<close> below the length of \<^verbatim>\<open>tests\<close>, which is its own length.
\<close>

definition runTestsBody ::
  "env \<Rightarrow> project \<Rightarrow> lesson \<Rightarrow> world \<Rightarrow> error + (testState list \<times> world)" where
  "runTestsBody env project l w =
     (case resolveFirstRunner (testers l) of
        Inl e \<Rightarrow> Inl e
      | Inr firstRunner \<Rightarrow>
          (case checkRunners firstRunner (testers l) of
             Some e \<Rightarrow> Inl e
           | None \<Rightarrow>
               (let w1 = emit (runHook env ''before-all'' (beforeAll l)) w;
                    testsState = initialState project (tests l);
                    w2 = emit [OnTestsStart project testsState, UpdateTests testsState,
                               UpdateConsole (ConsoleText [])] w1
                in Inr
                  (if blockingTests project then
                     (let (x, w3) = createWorker BlockingWorker firstRunner w2;
                          w4 = w3\<lparr>WORKER_POOL := WORKER_POOL w3 @ [x]\<rparr>
                      in postTests (wid x) (enumerate 0 (tests l)) (testsState, w4))
                   else spawnTests (enumerate 0 (tests l)) (testsState, w2)))))"

text \<open>
  \<^verbatim>\<open>runTests\<close>: the \<^verbatim>\<open>catch\<close> logs the exception and the function returns; \<^verbatim>\<open>testsState\<close>
  is still the empty array then.
\<close>

definition runTests :: "env \<Rightarrow> project \<Rightarrow> lesson \<Rightarrow> world \<Rightarrow> testState list \<times> world" where
  "runTests env project l w =
     (case runTestsBody env project l w of
        Inl e \<Rightarrow> ([], emit [LogError ''Test Error: '', LogErrorE e] w)
      | Inr r \<Rightarrow> r)"

subsection \<open>Reading a trace\<close>

text \<open>The calls a step added to the trace.\<close>

definition newEvents :: "world \<Rightarrow> world \<Rightarrow> event list" where
  "newEvents w w' = drop (length (trace w)) (trace w')"

definition emptyWorld :: world where
  "emptyWorld = \<lparr>trace = [], WORKER_POOL = [], nextWid = 0\<rparr>"

text \<open>The calls one aggregation check makes.\<close>

definition checkEvents ::
  "env \<Rightarrow> project \<Rightarrow> string list \<Rightarrow> int \<Rightarrow> testState list \<Rightarrow> hook option \<Rightarrow> event list" where
  "checkEvents env project hints' lessonNumber testsState afterAll' =
     trace (checkTestsCallback env project hints' lessonNumber testsState afterAll' emptyWorld)"

text \<open>Execution of hook code by a backend.\<close>

fun hookCall :: "event \<Rightarrow> bool" where
  "hookCall (Eval c) = True"
| "hookCall (RunPython c) = True"
| "hookCall e = False"

text \<open>Advancing to the next lesson: the persisted increment and the next lesson's run.\<close>

fun lessonIncrement :: "event \<Rightarrow> bool" where
  "lessonIncrement (SetProjectConfig d (CurrentLesson n)) = True"
| "lessonIncrement (RunLesson d) = True"
| "lessonIncrement e = False"

text \<open>Finishing the project: the plugin event, the timestamp and the client notification.\<close>

fun projectFinished :: "event \<Rightarrow> bool" where
  "projectFinished (OnProjectFinished p) = True"
| "projectFinished (SetProjectConfig d (CompletedDate n)) = True"
| "projectFinished HandleProjectFinish = True"
| "projectFinished e = False"

text \<open>The terminal plugin notification.\<close>

fun testsEnd :: "event \<Rightarrow> bool" where
  "testsEnd (OnTestsEnd p ts) = True"
| "testsEnd e = False"

subsection \<open>Sample inputs\<close>

definition sampleEnv :: env where
  "sampleEnv =
     \<lparr>evalNode = (\<lambda>c. None), runPython = (\<lambda>c. None),
      translate = (\<lambda>s. if s = ''expected true'' then Some ''se esperaba true'' else None),
      now = 1700000000000\<rparr>"

definition failingEnv :: env where
  "failingEnv =
     \<lparr>evalNode = (\<lambda>c. Some (Error ''boom'')), runPython = (\<lambda>c. Some (Error ''boom'')),
      translate = (\<lambda>s. None), now = 1700000000000\<rparr>"

definition sampleProject :: project where
  "sampleProject =
     \<lparr>dashedName = ''learn-x'', currentLesson = 0, blockingTests = False,
      isIntegrated = False, numberOfLessons = 3\<rparr>"

definition blockingProject :: project where
  "blockingProject =
     \<lparr>dashedName = ''learn-y'', currentLesson = 2, blockingTests = True,
      isIntegrated = False, numberOfLessons = 3\<rparr>"

definition nodeHook :: "string \<Rightarrow> hook" where
  "nodeHook c = \<lparr>runner = ''Node'', code = c\<rparr>"

definition nodeTest :: "string \<Rightarrow> string \<Rightarrow> test" where
  "nodeTest c txt = \<lparr>runner = ''Node'', code = c, text' = txt\<rparr>"

definition pythonTest :: "string \<Rightarrow> string \<Rightarrow> test" where
  "pythonTest c txt = \<lparr>runner = ''Python'', code = c, text' = txt\<rparr>"

text \<open>A lesson whose before-all hook runs on Node and whose only test runs on Python.\<close>

definition mixedLesson :: lesson where
  "mixedLesson =
     \<lparr>beforeAll = Some (nodeHook ''seed()''), beforeEach = None, afterAll = None,
      afterEach = None, hints = [], tests = [pythonTest ''assert True'' ''It works'']\<rparr>"

text \<open>A lesson whose hook and test name a runner that no backend serves.\<close>

definition rubyLesson :: lesson where
  "rubyLesson =
     \<lparr>beforeAll = Some \<lparr>runner = ''Ruby'', code = ''seed''\<rparr>, beforeEach = None,
      afterAll = None, afterEach = None, hints = [],
      tests = [\<lparr>runner = ''Ruby'', code = ''assert'', text' = ''It works''\<rparr>]\<rparr>"

definition settled :: "bool \<Rightarrow> nat \<Rightarrow> testState" where
  "settled ok i = \<lparr>passed = ok, testText = ''It works'', testId = i, isLoading = False\<rparr>"

definition loading :: "nat \<Rightarrow> testState" where
  "loading i = \<lparr>passed = False, testText = ''It works'', testId = i, isLoading = True\<rparr>"

text \<open>A lesson with one Node test and an after-all hook.\<close>

definition oneTestLesson :: lesson where
  "oneTestLesson =
     \<lparr>beforeAll = None, beforeEach = None, afterAll = Some (nodeHook ''cleanup()''),
      afterEach = None, hints = [], tests = [nodeTest ''assert(true)'' ''It works'']\<rparr>"

text \<open>A lesson with a before-all hook and two tests, all on Node.\<close>

definition seededLesson :: lesson where
  "seededLesson =
     \<lparr>beforeAll = Some (nodeHook ''seed()''), beforeEach = None, afterAll = None,
      afterEach = None, hints = [],
      tests = [nodeTest ''assert(true)'' ''It works'', nodeTest ''assert(1)'' ''It counts'']\<rparr>"

text \<open>
  Two runs in flight at once: a blocking run starts, then a parallel run of another
  project starts, and the test of the second run reports that it passed.
\<close>

definition firstRun :: "testState list \<times> world" where
  "firstRun = runTests sampleEnv blockingProject oneTestLesson emptyWorld"

definition secondRun :: "testState list \<times> world" where
  "secondRun = runTests sampleEnv sampleProject oneTestLesson (snd firstRun)"

definition secondRunPassed :: "error + (testState list \<times> world)" where
  "secondRunPassed =
     workerMessage sampleEnv sampleProject [] 0 (afterAll oneTestLesson) (fst secondRun)
       \<lparr>msgPassed = True, msgTestId = 0, msgError = None\<rparr> (snd secondRun)"

text \<open>
  One parallel run to its natural end: the worker of the only test posts its result, then
  exits with code 0.
\<close>

definition naturalRun :: "error + (testState list \<times> world)" where
  "naturalRun =
     (let (ts0, w0) = runTests sampleEnv sampleProject oneTestLesson emptyWorld in
      case workerMessage sampleEnv sampleProject [] 0 (afterAll oneTestLesson) ts0
             \<lparr>msgPassed = False, msgTestId = 0, msgError = None\<rparr> w0 of
        Inl e \<Rightarrow> Inl e
      | Inr (ts1, w1) \<Rightarrow>
          onExit sampleEnv \<lparr>wid = 0, wname = WorkerN 0, wrunner = ''Node'', exited = False\<rparr> 0
            ts1 (Some 0) (afterEach oneTestLesson) sampleProject [] 0 (afterAll oneTestLesson) w1)"

text \<open>A lesson with two Node tests and an after-all hook.\<close>

definition twoTestLesson :: lesson where
  "twoTestLesson =
     \<lparr>beforeAll = None, beforeEach = None, afterAll = Some (nodeHook ''cleanup()''),
      afterEach = None, hints = [],
      tests = [nodeTest ''assert(true)'' ''It works'', nodeTest ''assert(1)'' ''It counts'']\<rparr>"

text \<open>
  One parallel run of two tests that is cancelled: the second test reports its result, then
  both workers are terminated and exit with code 1, in the order of the pool.
\<close>

definition cancelledRun :: "error + (testState list \<times> world)" where
  "cancelledRun =
     (let (ts0, w0) = runTests sampleEnv sampleProject twoTestLesson emptyWorld in
      case workerMessage sampleEnv sampleProject [] 0 (afterAll twoTestLesson) ts0
             \<lparr>msgPassed = True, msgTestId = 1, msgError = None\<rparr> w0 of
        Inl e \<Rightarrow> Inl e
      | Inr (ts1, w1) \<Rightarrow>
          (case onExit sampleEnv \<lparr>wid = 0, wname = WorkerN 0, wrunner = ''Node'', exited = False\<rparr>
                  1 ts1 (Some 0) (afterEach twoTestLesson) sampleProject [] 0
                  (afterAll twoTestLesson) w1 of
             Inl e \<Rightarrow> Inl e
           | Inr (ts2, w2) \<Rightarrow>
               onExit sampleEnv \<lparr>wid = 1, wname = WorkerN 1, wrunner = ''Node'', exited = False\<rparr>
                 1 ts2 (Some 1) (afterEach twoTestLesson) sampleProject [] 0
                 (afterAll twoTestLesson) w2))"

section \<open>Properties\<close>

subsection \<open>Auxiliary facts\<close>

lemma trace_emit: "trace (emit evs w) = trace w @ evs"
  by (simp add: emit_def)

lemma pool_emit: "WORKER_POOL (emit evs w) = WORKER_POOL w"
  by (simp add: emit_def)

lemma nextWid_emit: "nextWid (emit evs w) = nextWid w"
  by (simp add: emit_def)

lemma trace_checkTestsCallback:
  "trace (checkTestsCallback env project hints' lessonNumber testsState afterAll' w) =
   trace w @ checkEvents env project hints' lessonNumber testsState afterAll'"
  by (simp add: checkTestsCallback_def checkEvents_def emptyWorld_def Let_def trace_emit)

lemma checkEvents_nonempty:
  "checkEvents env project hints' lessonNumber testsState afterAll' \<noteq> []"
  by (cases "list_all passed testsState"; cases "list_all (\<lambda>test. \<not> isLoading test) testsState";
      cases "isIntegrated project \<or> lessonNumber = numberOfLessons project - 1")
     (simp_all add: checkTestsCallback_def checkEvents_def emptyWorld_def Let_def trace_emit)

lemma runHook_no_progress:
  "list_all (\<lambda>e. \<not> lessonIncrement e \<and> \<not> projectFinished e) (runHook env label hk)"
  by (simp add: runHook_def hookSwitch_def split: option.splits)

lemma fst_cancelLoading:
  "fst (cancelLoading ts) =
   map (\<lambda>t. if isLoading t then t\<lparr>isLoading := False, passed := False\<rparr> else t) ts"
  by (induction ts) (auto simp: Let_def split: prod.splits)

lemma snd_cancelLoading:
  "snd (cancelLoading ts) =
   map (\<lambda>t. UpdateConsole (ConsoleError (t\<lparr>isLoading := False, passed := False\<rparr>)
                             (ErrStr ''Tests cancelled.'')))
     (filter isLoading ts)"
  by (induction ts) (auto simp: Let_def split: prod.splits)

lemma checkRunners_mismatch:
  "Some h \<in> set ts \<Longrightarrow> runner h \<noteq> r \<Longrightarrow>
   \<exists>found. found \<noteq> r \<and>
     checkRunners r ts =
       Some (Error (''All tests and hooks must use the same runner. Found: '' @ found @
                    '', expected: '' @ r))"
  by (induction ts) (auto split: option.splits)


lemma enumerate_index_ge: "(i, t) \<in> set (enumerate n xs) \<Longrightarrow> n \<le> i"
  by (simp add: in_set_enumerate_eq)

lemma postTests_result:
  "n + length rest \<le> length ts \<Longrightarrow> \<exists>ts' w'. postTests x (enumerate n rest) (ts, w) = (ts', w') \<and>
     trace w' = trace w @
       concat (map (\<lambda>(i, t). [UpdateTest ((ts ! i)\<lparr>isLoading := True\<rparr>), PostMessage x (code t) i])
                 (enumerate n rest)) \<and>
     WORKER_POOL w' = WORKER_POOL w \<and> nextWid w' = nextWid w \<and>
     length ts' = length ts \<and>
     (\<forall>j. ts' ! j = (if n \<le> j \<and> j < n + length rest
                      then (ts ! j)\<lparr>isLoading := True\<rparr> else ts ! j))"
proof (induction rest arbitrary: n ts w)
  case Nil
  show ?case by auto
next
  case (Cons t rest)
  let ?ts1 = "ts[n := (ts ! n)\<lparr>isLoading := True\<rparr>]"
  let ?w1 = "emit [UpdateTest (?ts1 ! n), PostMessage x (code t) n] w"
  have n: "n < length ts" using Cons.prems by simp
  have "Suc n + length rest \<le> length ?ts1" using Cons.prems by simp
  from Cons.IH[OF this, of ?w1] obtain ts' w' where
    r: "postTests x (enumerate (Suc n) rest) (?ts1, ?w1) = (ts', w')"
    and tr: "trace w' = trace ?w1 @
       concat (map (\<lambda>(i, t). [UpdateTest ((?ts1 ! i)\<lparr>isLoading := True\<rparr>), PostMessage x (code t) i])
                 (enumerate (Suc n) rest))"
    and frame: "WORKER_POOL w' = WORKER_POOL ?w1" "nextWid w' = nextWid ?w1" "length ts' = length ?ts1"
    and pt: "\<forall>j. ts' ! j = (if Suc n \<le> j \<and> j < Suc n + length rest
                      then (?ts1 ! j)\<lparr>isLoading := True\<rparr> else ?ts1 ! j)"
    by blast
  have same: "map (\<lambda>(i, t). [UpdateTest ((?ts1 ! i)\<lparr>isLoading := True\<rparr>), PostMessage x (code t) i])
                 (enumerate (Suc n) rest) =
              map (\<lambda>(i, t). [UpdateTest ((ts ! i)\<lparr>isLoading := True\<rparr>), PostMessage x (code t) i])
                 (enumerate (Suc n) rest)"
    by (rule map_cong[OF refl]) (auto dest: enumerate_index_ge)
  have hd: "UpdateTest (?ts1 ! n) = UpdateTest ((ts ! n)\<lparr>isLoading := True\<rparr>)"
    using n by simp
  have "postTests x (enumerate n (t # rest)) (ts, w) = (ts', w')"
    using r by (simp add: Let_def)
  moreover have "trace w' = trace w @
       concat (map (\<lambda>(i, t). [UpdateTest ((ts ! i)\<lparr>isLoading := True\<rparr>), PostMessage x (code t) i])
                 (enumerate n (t # rest)))"
    using tr hd by (simp add: same trace_emit)
  moreover have "WORKER_POOL w' = WORKER_POOL w" "nextWid w' = nextWid w" "length ts' = length ts"
    using frame by (simp_all add: pool_emit nextWid_emit)
  moreover have "\<forall>j. ts' ! j = (if n \<le> j \<and> j < n + length (t # rest)
                      then (ts ! j)\<lparr>isLoading := True\<rparr> else ts ! j)"
  proof
    fix j
    show "ts' ! j = (if n \<le> j \<and> j < n + length (t # rest)
                      then (ts ! j)\<lparr>isLoading := True\<rparr> else ts ! j)"
      using pt[rule_format, of j] n by (cases "j = n") (auto simp: nth_list_update)
  qed
  ultimately show ?case by blast
qed

lemma spawnTests_result:
  "n + length rest \<le> length ts \<Longrightarrow> \<exists>ts' w'. spawnTests (enumerate n rest) (ts, w) = (ts', w') \<and>
     trace w' = trace w @
       concat (map (\<lambda>(i, t). [UpdateTest ((ts ! i)\<lparr>isLoading := True\<rparr>),
                               CreateWorker \<lparr>wid = nextWid w + (i - n), wname = WorkerN i,
                                             wrunner = runner t, exited = False\<rparr>,
                               PostMessage (nextWid w + (i - n)) (code t) i])
                 (enumerate n rest)) \<and>
     WORKER_POOL w' = WORKER_POOL w @
       map (\<lambda>(i, t). \<lparr>wid = nextWid w + (i - n), wname = WorkerN i,
                       wrunner = runner t, exited = False\<rparr>) (enumerate n rest) \<and>
     nextWid w' = nextWid w + length rest \<and>
     length ts' = length ts \<and>
     (\<forall>j. ts' ! j = (if n \<le> j \<and> j < n + length rest
                      then (ts ! j)\<lparr>isLoading := True\<rparr> else ts ! j))"
proof (induction rest arbitrary: n ts w)
  case Nil
  show ?case by auto
next
  case (Cons t rest)
  let ?ts1 = "ts[n := (ts ! n)\<lparr>isLoading := True\<rparr>]"
  let ?x = "\<lparr>wid = nextWid w, wname = WorkerN n, wrunner = runner t, exited = False\<rparr>"
  let ?w1 = "emit [UpdateTest (?ts1 ! n)] w"
  let ?w2 = "(emit [CreateWorker ?x] ?w1)\<lparr>nextWid := nextWid ?w1 + 1\<rparr>"
  let ?w3 = "?w2\<lparr>WORKER_POOL := WORKER_POOL ?w2 @ [?x]\<rparr>"
  define w4 where "w4 = emit [PostMessage (wid ?x) (code t) n] ?w3"
  have w4: "trace w4 = trace w @ [UpdateTest (?ts1 ! n), CreateWorker ?x,
                                     PostMessage (nextWid w) (code t) n]"
    "nextWid w4 = nextWid w + 1" "WORKER_POOL w4 = WORKER_POOL w @ [?x]"
    by (simp_all add: emit_def w4_def)
  have n: "n < length ts" using Cons.prems by simp
  have "Suc n + length rest \<le> length ?ts1" using Cons.prems by simp
  from Cons.IH[OF this, of w4] obtain ts' w' where
    r: "spawnTests (enumerate (Suc n) rest) (?ts1, w4) = (ts', w')"
    and tr: "trace w' = trace w4 @
       concat (map (\<lambda>(i, t). [UpdateTest ((?ts1 ! i)\<lparr>isLoading := True\<rparr>),
                               CreateWorker \<lparr>wid = nextWid w4 + (i - Suc n), wname = WorkerN i,
                                             wrunner = runner t, exited = False\<rparr>,
                               PostMessage (nextWid w4 + (i - Suc n)) (code t) i])
                 (enumerate (Suc n) rest))"
    and pool: "WORKER_POOL w' = WORKER_POOL w4 @
       map (\<lambda>(i, t). \<lparr>wid = nextWid w4 + (i - Suc n), wname = WorkerN i,
                       wrunner = runner t, exited = False\<rparr>) (enumerate (Suc n) rest)"
    and frame: "nextWid w' = nextWid w4 + length rest" "length ts' = length ?ts1"
    and pt: "\<forall>j. ts' ! j = (if Suc n \<le> j \<and> j < Suc n + length rest
                      then (?ts1 ! j)\<lparr>isLoading := True\<rparr> else ?ts1 ! j)"
    by blast
  have same: "map (\<lambda>(i, t). [UpdateTest ((?ts1 ! i)\<lparr>isLoading := True\<rparr>),
                               CreateWorker \<lparr>wid = nextWid w4 + (i - Suc n), wname = WorkerN i,
                                             wrunner = runner t, exited = False\<rparr>,
                               PostMessage (nextWid w4 + (i - Suc n)) (code t) i])
                 (enumerate (Suc n) rest) =
              map (\<lambda>(i, t). [UpdateTest ((ts ! i)\<lparr>isLoading := True\<rparr>),
                               CreateWorker \<lparr>wid = nextWid w + (i - n), wname = WorkerN i,
                                             wrunner = runner t, exited = False\<rparr>,
                               PostMessage (nextWid w + (i - n)) (code t) i])
                 (enumerate (Suc n) rest)"
    by (rule map_cong[OF refl]) (auto simp: w4 dest!: enumerate_index_ge)
  have samep: "map (\<lambda>(i, t). \<lparr>wid = nextWid w4 + (i - Suc n), wname = WorkerN i,
                       wrunner = runner t, exited = False\<rparr>) (enumerate (Suc n) rest) =
               map (\<lambda>(i, t). \<lparr>wid = nextWid w + (i - n), wname = WorkerN i,
                       wrunner = runner t, exited = False\<rparr>) (enumerate (Suc n) rest)"
    by (rule map_cong[OF refl]) (auto simp: w4 dest!: enumerate_index_ge)
  have hd: "?ts1 ! n = (ts ! n)\<lparr>isLoading := True\<rparr>"
    using n by simp
  have "spawnTests (enumerate n (t # rest)) (ts, w) = (ts', w')"
    using r by (simp add: Let_def createWorker_def nextWid_emit w4_def)
  moreover have "trace w' = trace w @
       concat (map (\<lambda>(i, t). [UpdateTest ((ts ! i)\<lparr>isLoading := True\<rparr>),
                               CreateWorker \<lparr>wid = nextWid w + (i - n), wname = WorkerN i,
                                             wrunner = runner t, exited = False\<rparr>,
                               PostMessage (nextWid w + (i - n)) (code t) i])
                 (enumerate n (t # rest)))"
    using hd by (simp only: tr same) (simp add: w4)
  moreover have "WORKER_POOL w' = WORKER_POOL w @
       map (\<lambda>(i, t). \<lparr>wid = nextWid w + (i - n), wname = WorkerN i,
                       wrunner = runner t, exited = False\<rparr>) (enumerate n (t # rest))"
    by (simp only: pool samep) (simp add: w4)
  moreover have "nextWid w' = nextWid w + length (t # rest)" "length ts' = length ts"
    using frame w4 by simp_all
  moreover have "\<forall>j. ts' ! j = (if n \<le> j \<and> j < n + length (t # rest)
                      then (ts ! j)\<lparr>isLoading := True\<rparr> else ts ! j)"
  proof
    fix j
    show "ts' ! j = (if n \<le> j \<and> j < n + length (t # rest)
                      then (ts ! j)\<lparr>isLoading := True\<rparr> else ts ! j)"
      using pt[rule_format, of j] n by (cases "j = n") (auto simp: nth_list_update)
  qed
  ultimately show ?case by blast
qed

lemma initialState_nth:
  "i < length ts \<Longrightarrow>
   initialState project ts ! i =
     \<lparr>passed = False, testText = text' (ts ! i), testId = i, isLoading = \<not> blockingTests project\<rparr>"
  by (simp add: initialState_def nth_enumerate_eq)

lemma length_initialState: "length (initialState project ts) = length ts"
  by (simp add: initialState_def)

lemma cancelLoading_no_hookCall: "\<not> list_ex hookCall (snd (cancelLoading ts))"
  by (simp add: snd_cancelLoading list_ex_iff)

lemma cancelTests_no_hookCall:
  assumes "cancelTests exitCode testsState i = Inr (ts, evs)"
  shows "\<not> list_ex hookCall evs"
proof (cases "exitCode = 1")
  case False
  then show ?thesis using assms by (simp add: cancelTests_def)
next
  case True
  show ?thesis
  proof (cases i)
    case (Some k)
    then show ?thesis
      using assms True by (auto simp: cancelTests_def Let_def split: if_splits)
  next
    case None
    obtain ts1 evs1 where c: "cancelLoading testsState = (ts1, evs1)"
      by (cases "cancelLoading testsState")
    have "\<not> list_ex hookCall evs1"
      using cancelLoading_no_hookCall[of testsState] c by simp
    then show ?thesis
      using assms True None c by (auto simp: cancelTests_def)
  qed
qed

lemma cancelTests_returns:
  "\<forall>k. i = Some k \<longrightarrow> k < length testsState \<Longrightarrow>
   \<exists>ts evs. cancelTests exitCode testsState i = Inr (ts, evs)"
  by (cases i; cases "cancelLoading testsState") (simp_all add: cancelTests_def Let_def)

lemma filter_concat_empty:
  "(\<And>x. x \<in> set xs \<Longrightarrow> filter P (f x) = []) \<Longrightarrow> filter P (concat (map f xs)) = []"
  by (induction xs) simp_all

lemma filter_hookCall_runHook:
  "filter hookCall (runHook env label (Some h)) = fst (hookSwitch env h)"
  by (simp add: runHook_def hookSwitch_def split: option.splits)

lemma runHook_Some:
  "runHook env label (Some h) =
     LogDebug (''Starting: --'' @ label @ ''-- hook'') # fst (hookSwitch env h) @
     (case snd (hookSwitch env h) of
        None \<Rightarrow> [LogDebug (''Finished: --'' @ label @ ''-- hook'')]
      | Some e \<Rightarrow> [LogError (''--'' @ label @ ''-- hook failed to run:''), LogErrorE e])"
  by (simp add: runHook_def split: prod.splits option.splits)

lemmas run_defs = runTests_def runTestsBody_def testers_def resolveFirstRunner_def
  initialState_def createWorker_def emit_def hook.defs Let_def
  workerMessage_def checkTestsCallback_def runHook_def hookSwitch_def
  onExit_def handleWorkerExit_def cancelTests_def removeWorkerFromPool_def

lemma firstRun_value:
  "firstRun =
    ([\<lparr>passed = False, testText = ''It works'', testId = 0, isLoading = True\<rparr>],
     \<lparr>trace =
        [OnTestsStart blockingProject
           [\<lparr>passed = False, testText = ''It works'', testId = 0, isLoading = False\<rparr>],
         UpdateTests [\<lparr>passed = False, testText = ''It works'', testId = 0, isLoading = False\<rparr>],
         UpdateConsole (ConsoleText []),
         CreateWorker \<lparr>wid = 0, wname = BlockingWorker, wrunner = ''Node'', exited = False\<rparr>,
         UpdateTest \<lparr>passed = False, testText = ''It works'', testId = 0, isLoading = True\<rparr>,
         PostMessage 0 ''assert(true)'' 0],
      WORKER_POOL = [\<lparr>wid = 0, wname = BlockingWorker, wrunner = ''Node'', exited = False\<rparr>],
      nextWid = 1\<rparr>)"
  by (simp add: firstRun_def run_defs oneTestLesson_def nodeHook_def nodeTest_def
      blockingProject_def emptyWorld_def enumerate_eq_zip)

subsection \<open>Runner consistency\<close>

text \<open>
  Claim C2. When some hook or test that is present has a runner id different from the first
  resolved runner id, \<^verbatim>\<open>runTests\<close> aborts with the runner-mismatch error: the exception is
  logged by the outer handler and nothing else happens. No worker is created, the pool is
  unchanged, the before-all hook does not run, and no test state is published.
\<close>

theorem runTests_runner_mismatch:
  assumes "resolveFirstRunner (testers l) = Inr r"
    and "Some h \<in> set (testers l)"
    and "runner h \<noteq> r"
  shows "\<exists>found. found \<noteq> r \<and>
      runTests env project l w =
        ([], w\<lparr>trace := trace w @
               [LogError ''Test Error: '',
                LogErrorE (Error (''All tests and hooks must use the same runner. Found: '' @
                                  found @ '', expected: '' @ r))]\<rparr>)"
proof -
  from checkRunners_mismatch[OF assms(2,3)] obtain found where
    f: "found \<noteq> r"
       "checkRunners r (testers l) =
          Some (Error (''All tests and hooks must use the same runner. Found: '' @ found @
                       '', expected: '' @ r))"
    by blast
  show ?thesis
    using f assms(1) by (auto simp: runTests_def runTestsBody_def emit_def)
qed

theorem runTests_runner_mismatch_witness:
  "resolveFirstRunner (testers mixedLesson) = Inr ''Node'' \<and>
   Some \<lparr>runner = ''Python'', code = ''assert True''\<rparr> \<in> set (testers mixedLesson) \<and>
   (\<exists>found. found \<noteq> ''Node'' \<and>
      runTests sampleEnv sampleProject mixedLesson emptyWorld =
        ([], emptyWorld\<lparr>trace := trace emptyWorld @
               [LogError ''Test Error: '',
                LogErrorE (Error (''All tests and hooks must use the same runner. Found: '' @
                                  found @ '', expected: '' @ ''Node''))]\<rparr>))"
proof -
  have a: "resolveFirstRunner (testers mixedLesson) = Inr ''Node''"
    by (simp add: resolveFirstRunner_def testers_def mixedLesson_def nodeHook_def)
  have b: "Some \<lparr>runner = ''Python'', code = ''assert True''\<rparr> \<in> set (testers mixedLesson)"
    by (simp add: testers_def mixedLesson_def pythonTest_def hook.defs)
  have c: "runner \<lparr>runner = ''Python'', code = ''assert True''\<rparr> \<noteq> ''Node''"
    by simp
  show ?thesis
    using a b runTests_runner_mismatch[OF a b c, of sampleEnv sampleProject emptyWorld]
    by blast
qed

text \<open>
  Claim C10. For a lesson with no hook and no test, resolving the first runner id throws;
  \<^verbatim>\<open>runTests\<close> catches the exception, logs it and returns. The log lines are the only
  effect: no worker, no published test state, no plugin event, and the pool is unchanged.
\<close>

theorem runTests_no_testers:
  "runTests env project
     \<lparr>beforeAll = None, beforeEach = None, afterAll = None, afterEach = None,
      hints = hs, tests = []\<rparr> w =
   ([], w\<lparr>trace := trace w @
            [LogError ''Test Error: '',
             LogErrorE (TypeError ''Cannot read properties of undefined (reading runner)'')]\<rparr>)"
  by (simp add: runTests_def runTestsBody_def testers_def resolveFirstRunner_def emit_def)

subsection \<open>Progression\<close>

text \<open>
  Claim C3. When the aggregation check runs with every test passed, it reports
  lesson-passed and clears the hint panel; then, if the project is integrated or the lesson
  number is \<open>numberOfLessons - 1\<close>, it reports project-finished, persists the completion
  timestamp and notifies the client, else it persists \<open>lessonNumber + 1\<close> and runs the
  next lesson. What follows (the teardown, when every test has settled) neither advances
  the lesson nor finishes the project, so each branch excludes the other's calls.
\<close>

theorem checkTestsCallback_all_passed:
  assumes "list_all passed testsState"
  shows "\<exists>terminal.
      newEvents w (checkTestsCallback env project hints' lessonNumber testsState afterAll' w) =
        [OnLessonPassed project, ResetBottomPanel] @
        (if isIntegrated project \<or> lessonNumber = numberOfLessons project - 1
         then [OnProjectFinished project,
               SetProjectConfig (dashedName project) (CompletedDate (now env)),
               HandleProjectFinish]
         else [SetProjectConfig (dashedName project) (CurrentLesson (lessonNumber + 1)),
               RunLesson (dashedName project)]) @ terminal \<and>
      \<not> list_ex lessonIncrement terminal \<and> \<not> list_ex projectFinished terminal"
proof -
  let ?terminal = "if list_all (\<lambda>test. \<not> isLoading test) testsState
            then runHook env ''after-all'' afterAll' @ [OnTestsEnd project testsState]
            else []"
  have "\<not> list_ex lessonIncrement ?terminal" "\<not> list_ex projectFinished ?terminal"
    using runHook_no_progress[of env "''after-all''" afterAll']
    by (auto simp: list_ex_iff list_all_iff)
  moreover have "newEvents w (checkTestsCallback env project hints' lessonNumber testsState afterAll' w) =
        [OnLessonPassed project, ResetBottomPanel] @
        (if isIntegrated project \<or> lessonNumber = numberOfLessons project - 1
         then [OnProjectFinished project,
               SetProjectConfig (dashedName project) (CompletedDate (now env)),
               HandleProjectFinish]
         else [SetProjectConfig (dashedName project) (CurrentLesson (lessonNumber + 1)),
               RunLesson (dashedName project)]) @ ?terminal"
    using assms by (simp add: checkTestsCallback_def Let_def trace_emit newEvents_def)
  ultimately show ?thesis by blast
qed

theorem checkTestsCallback_all_passed_witness:
  "list_all passed [settled True 0, settled True 1, settled True 2] \<and>
   (\<exists>terminal.
      newEvents emptyWorld
        (checkTestsCallback sampleEnv sampleProject [] 0
           [settled True 0, settled True 1, settled True 2] None emptyWorld) =
        [OnLessonPassed sampleProject, ResetBottomPanel] @
        [SetProjectConfig ''learn-x'' (CurrentLesson 1), RunLesson ''learn-x''] @ terminal \<and>
      \<not> list_ex lessonIncrement terminal \<and> \<not> list_ex projectFinished terminal)"
proof -
  have h: "list_all passed [settled True 0, settled True 1, settled True 2]"
    by (simp add: settled_def)
  show ?thesis
    using h checkTestsCallback_all_passed[OF h, of emptyWorld sampleEnv sampleProject "[]" 0 None]
    by (simp add: sampleProject_def)
qed

subsection \<open>Cancellation\<close>

text \<open>
  Claim C4. In blocking mode (no index is passed) and on exit code 1, the exit handler
  returns; every test that was still loading is now failed and not loading, its other
  fields unchanged, and a console error \<^verbatim>\<open>Tests cancelled.\<close> was published for it; every
  test that had settled is unchanged.
\<close>

theorem handleWorkerExit_blocking_cancel:
  "\<exists>ts w'. handleWorkerExit env 1 testsState None afterEach' project hints' lessonNumber afterAll' w
             = Inr (ts, w') \<and>
     length ts = length testsState \<and>
     (\<forall>k<length testsState.
        if isLoading (testsState ! k)
        then ts ! k = (testsState ! k)\<lparr>isLoading := False, passed := False\<rparr> \<and>
             UpdateConsole (ConsoleError (ts ! k) (ErrStr ''Tests cancelled.''))
               \<in> set (newEvents w w')
        else ts ! k = testsState ! k)"
proof -
  obtain ts evs where c: "cancelLoading testsState = (ts, evs)" by (cases "cancelLoading testsState")
  have ts: "ts = map (\<lambda>t. if isLoading t then t\<lparr>isLoading := False, passed := False\<rparr> else t) testsState"
    using fst_cancelLoading[of testsState] c by simp
  have evs: "evs = map (\<lambda>t. UpdateConsole (ConsoleError (t\<lparr>isLoading := False, passed := False\<rparr>)
                             (ErrStr ''Tests cancelled.''))) (filter isLoading testsState)"
    using snd_cancelLoading[of testsState] c by simp
  let ?w' = "checkTestsCallback env project hints' lessonNumber ts afterAll'
              (emit (runHook env ''after-each'' afterEach') (emit (evs @ [UpdateTests ts]) w))"
  have r: "handleWorkerExit env 1 testsState None afterEach' project hints' lessonNumber afterAll' w
             = Inr (ts, ?w')"
    by (simp add: handleWorkerExit_def cancelTests_def c)
  have n: "newEvents w ?w' = evs @ [UpdateTests ts] @ runHook env ''after-each'' afterEach' @
             checkEvents env project hints' lessonNumber ts afterAll'"
    by (simp add: newEvents_def trace_checkTestsCallback trace_emit)
  have "\<forall>k<length testsState.
        if isLoading (testsState ! k)
        then ts ! k = (testsState ! k)\<lparr>isLoading := False, passed := False\<rparr> \<and>
             UpdateConsole (ConsoleError (ts ! k) (ErrStr ''Tests cancelled.''))
               \<in> set (newEvents w ?w')
        else ts ! k = testsState ! k"
  proof (intro allI impI)
    fix k assume k: "k < length testsState"
    show "if isLoading (testsState ! k)
        then ts ! k = (testsState ! k)\<lparr>isLoading := False, passed := False\<rparr> \<and>
             UpdateConsole (ConsoleError (ts ! k) (ErrStr ''Tests cancelled.''))
               \<in> set (newEvents w ?w')
        else ts ! k = testsState ! k"
    proof (cases "isLoading (testsState ! k)")
      case True
      have "testsState ! k \<in> set (filter isLoading testsState)" using k True by simp
      then have "UpdateConsole (ConsoleError ((testsState ! k)\<lparr>isLoading := False, passed := False\<rparr>)
                             (ErrStr ''Tests cancelled.'')) \<in> set evs"
        unfolding evs by (simp only: set_map) (rule imageI)
      then have "UpdateConsole (ConsoleError ((testsState ! k)\<lparr>isLoading := False, passed := False\<rparr>)
                             (ErrStr ''Tests cancelled.'')) \<in> set (newEvents w ?w')"
        by (simp only: n set_append UnI1)
      moreover have "ts ! k = (testsState ! k)\<lparr>isLoading := False, passed := False\<rparr>"
        using True k by (simp add: ts)
      ultimately show ?thesis using True by (simp only: if_True simp_thms)
    next
      case False
      have "ts ! k = testsState ! k"
        using False k by (simp add: ts)
      then show ?thesis using False by (simp only: if_False)
    qed
  qed
  note body = this
  have len: "length ts = length testsState" by (simp add: ts)
  show ?thesis
    apply (rule exI[of _ ts])
    apply (rule exI[of _ ?w'])
    apply (intro conjI)
      apply (rule r)
     apply (rule len)
    apply (rule body)
    done
qed

theorem handleWorkerExit_blocking_cancel_witness:
  "\<exists>ts w'. handleWorkerExit sampleEnv 1 [settled True 0, loading 1] None None blockingProject []
              2 None emptyWorld = Inr (ts, w') \<and>
     ts ! 0 = settled True 0 \<and>
     ts ! 1 = (loading 1)\<lparr>isLoading := False, passed := False\<rparr> \<and>
     UpdateConsole (ConsoleError (ts ! 1) (ErrStr ''Tests cancelled.'')) \<in> set (newEvents emptyWorld w')"
proof -
  from handleWorkerExit_blocking_cancel
         [of sampleEnv "[settled True 0, loading 1]" None blockingProject "[]" 2 None emptyWorld]
  obtain ts w' where
    r: "handleWorkerExit sampleEnv 1 [settled True 0, loading 1] None None blockingProject []
              2 None emptyWorld = Inr (ts, w')"
    and pt: "\<forall>k<length [settled True 0, loading 1].
        if isLoading ([settled True 0, loading 1] ! k)
        then ts ! k = ([settled True 0, loading 1] ! k)\<lparr>isLoading := False, passed := False\<rparr> \<and>
             UpdateConsole (ConsoleError (ts ! k) (ErrStr ''Tests cancelled.''))
               \<in> set (newEvents emptyWorld w')
        else ts ! k = [settled True 0, loading 1] ! k"
    by blast
  have "ts ! 0 = settled True 0"
    using pt[rule_format, of 0] by (simp add: settled_def)
  moreover have "ts ! 1 = (loading 1)\<lparr>isLoading := False, passed := False\<rparr> \<and>
     UpdateConsole (ConsoleError (ts ! 1) (ErrStr ''Tests cancelled.'')) \<in> set (newEvents emptyWorld w')"
    using pt[rule_format, of 1] by (auto simp: loading_def)
  ultimately show ?thesis using r by blast
qed

text \<open>
  Claim C5. In parallel mode (the handler gets the index of its test) and on exit code 1,
  the exit handler returns; the test at that index is now failed and not loading, a console
  error \<^verbatim>\<open>Tests cancelled.\<close> was published for it, and every other entry of the array is
  unchanged.
\<close>

theorem handleWorkerExit_parallel_cancel:
  assumes "k < length testsState"
  shows "\<exists>ts w'. handleWorkerExit env 1 testsState (Some k) afterEach' project hints' lessonNumber
                   afterAll' w = Inr (ts, w') \<and>
     length ts = length testsState \<and>
     ts ! k = (testsState ! k)\<lparr>isLoading := False, passed := False\<rparr> \<and>
     UpdateConsole (ConsoleError (ts ! k) (ErrStr ''Tests cancelled.'')) \<in> set (newEvents w w') \<and>
     (\<forall>j. j \<noteq> k \<longrightarrow> ts ! j = testsState ! j)"
  using assms
  by (simp add: handleWorkerExit_def cancelTests_def Let_def newEvents_def
      trace_checkTestsCallback trace_emit)

theorem handleWorkerExit_parallel_cancel_witness:
  "(1::nat) < length [loading 0, loading 1, settled True 2] \<and>
   (\<exists>ts w'. handleWorkerExit sampleEnv 1 [loading 0, loading 1, settled True 2] (Some 1) None
               sampleProject [] 0 None emptyWorld = Inr (ts, w') \<and>
      ts ! 1 = (loading 1)\<lparr>isLoading := False, passed := False\<rparr> \<and>
      ts ! 0 = loading 0 \<and> ts ! 2 = settled True 2)"
proof -
  have h: "(1::nat) < length [loading 0, loading 1, settled True 2]" by simp
  from handleWorkerExit_parallel_cancel
         [OF h, of sampleEnv None sampleProject "[]" 0 None emptyWorld]
  obtain ts w' where
    r: "handleWorkerExit sampleEnv 1 [loading 0, loading 1, settled True 2] (Some 1) None
               sampleProject [] 0 None emptyWorld = Inr (ts, w')"
    and k: "ts ! 1 = ([loading 0, loading 1, settled True 2] ! 1)\<lparr>isLoading := False, passed := False\<rparr>"
    and others: "\<forall>j. j \<noteq> 1 \<longrightarrow> ts ! j = [loading 0, loading 1, settled True 2] ! j"
    by blast
  have "ts ! 0 = loading 0" using others[rule_format, of 0] by simp
  moreover have "ts ! 2 = settled True 2" using others[rule_format, of 2] by simp
  moreover have "ts ! 1 = (loading 1)\<lparr>isLoading := False, passed := False\<rparr>" using k by simp
  ultimately show ?thesis using r h by blast
qed

subsection \<open>Worker messages\<close>

text \<open>
  Claim C9. When a worker message carries an error with a non-empty message and its test
  id is that of a test, the handler returns; the console entry published for the test
  carries the translation of the message when the localization function returns a
  non-empty string, and the original message when it returns \<^verbatim>\<open>undefined\<close> or the empty
  string; the test is marked not loading, with the reported value of \<^verbatim>\<open>passed\<close>.
\<close>

theorem workerMessage_translates:
  assumes "msgTestId m < length testsState"
    and "msgError m = Some err"
    and "emessage err = Some txt"
    and "txt \<noteq> []"
  shows "\<exists>ts w'. workerMessage env project hints' lessonNumber afterAll' testsState m w = Inr (ts, w') \<and>
     ts = testsState[msgTestId m :=
            (testsState ! msgTestId m)\<lparr>isLoading := False, passed := msgPassed m\<rparr>] \<and>
     \<not> isLoading (ts ! msgTestId m) \<and>
     passed (ts ! msgTestId m) = msgPassed m \<and>
     UpdateConsole (ConsoleError (ts ! msgTestId m)
        (ErrObj (err\<lparr>emessage :=
           Some (case translate env txt of
                   None \<Rightarrow> txt
                 | Some tr \<Rightarrow> if tr = [] then txt else tr)\<rparr>))) \<in> set (newEvents w w')"
  using assms
  by (auto simp add: workerMessage_def Let_def newEvents_def translateError_def
      trace_checkTestsCallback trace_emit split: option.splits)

theorem workerMessage_translates_witness:
  "\<exists>ts w'. workerMessage sampleEnv sampleProject [] 0 None [loading 0]
       \<lparr>msgPassed = False, msgTestId = 0,
        msgError = Some \<lparr>etype = Some ''AssertionError'', emessage = Some ''expected true''\<rparr>\<rparr>
       emptyWorld = Inr (ts, w') \<and>
     \<not> isLoading (ts ! 0) \<and> \<not> passed (ts ! 0) \<and>
     UpdateConsole (ConsoleError (ts ! 0)
        (ErrObj \<lparr>etype = Some ''AssertionError'', emessage = Some ''se esperaba true''\<rparr>))
       \<in> set (newEvents emptyWorld w')"
  using workerMessage_translates
    [of "\<lparr>msgPassed = False, msgTestId = 0,
         msgError = Some \<lparr>etype = Some ''AssertionError'', emessage = Some ''expected true''\<rparr>\<rparr>"
        "[loading 0]"
        "\<lparr>etype = Some ''AssertionError'', emessage = Some ''expected true''\<rparr>"
        "''expected true''" sampleEnv sampleProject "[]" 0 None emptyWorld]
  by (auto simp: sampleEnv_def loading_def)

subsection \<open>The before-all hook\<close>

text \<open>
  A run whose before-all hook is present but whose test uses another runner: the run
  aborts at the runner check, and the hook is not executed at all. And a run whose hook and
  test share a runner that no backend serves: the run goes on to create its worker, and
  the code of the hook is never executed.
\<close>

theorem runTests_beforeAll_skipped_on_mismatch:
  "beforeAll mixedLesson = Some (nodeHook ''seed()'') \<and>
   runTests sampleEnv sampleProject mixedLesson emptyWorld =
     ([], \<lparr>trace =
             [LogError ''Test Error: '',
              LogErrorE (Error ''All tests and hooks must use the same runner. Found: Python, expected: Node'')],
           WORKER_POOL = [], nextWid = 0\<rparr>) \<and>
   filter hookCall
     (newEvents emptyWorld (snd (runTests sampleEnv sampleProject mixedLesson emptyWorld))) = [] \<and>
   filter hookCall
     (newEvents emptyWorld (snd (runTests sampleEnv sampleProject rubyLesson emptyWorld))) = [] \<and>
   WORKER_POOL (snd (runTests sampleEnv sampleProject rubyLesson emptyWorld)) =
     [\<lparr>wid = 0, wname = WorkerN 0, wrunner = ''Ruby'', exited = False\<rparr>]"
  by (simp add: run_defs newEvents_def mixedLesson_def rubyLesson_def nodeHook_def pythonTest_def
      emptyWorld_def sampleProject_def enumerate_eq_zip)

text \<open>
  Claim C8, amended. For every run that passes the runner-consistency check and has a
  before-all hook, \<^verbatim>\<open>runTests\<close> returns, and the calls it makes are, in this order: the
  guarded block of the hook; the tests-start event, the publication of the initial test
  states and the console reset; then the dispatch, which holds every worker creation and
  one posted message for each test. The backend calls of the whole run are those of the
  one dispatch of the hook (its code once when the runner is Node or Python, none for
  another runner, which counts as a failure of the hook). Whatever the hook throws is
  logged inside its block and the run goes on as above; every test state ends up loading.
\<close>

theorem runTests_beforeAll:
  assumes "resolveFirstRunner (testers l) = Inr r"
    and "checkRunners r (testers l) = None"
    and "beforeAll l = Some h"
  shows "\<exists>ts' w'. runTests env project l w = (ts', w') \<and>
     (let ts0 = initialState project (tests l);
          dispatch =
            (if blockingTests project then
               CreateWorker \<lparr>wid = nextWid w, wname = BlockingWorker, wrunner = r, exited = False\<rparr> #
               concat (map (\<lambda>(i, t). [UpdateTest ((ts0 ! i)\<lparr>isLoading := True\<rparr>),
                                       PostMessage (nextWid w) (code t) i])
                         (enumerate 0 (tests l)))
             else
               concat (map (\<lambda>(i, t). [UpdateTest ((ts0 ! i)\<lparr>isLoading := True\<rparr>),
                                       CreateWorker \<lparr>wid = nextWid w + i, wname = WorkerN i,
                                                     wrunner = runner t, exited = False\<rparr>,
                                       PostMessage (nextWid w + i) (code t) i])
                         (enumerate 0 (tests l))))
      in newEvents w w' =
           runHook env ''before-all'' (Some h) @
           [OnTestsStart project ts0, UpdateTests ts0, UpdateConsole (ConsoleText [])] @ dispatch \<and>
         ts' = map (\<lambda>s. s\<lparr>isLoading := True\<rparr>) ts0) \<and>
     filter hookCall (newEvents w w') = fst (hookSwitch env h) \<and>
     runHook env ''before-all'' (Some h) =
       LogDebug ''Starting: --before-all-- hook'' # fst (hookSwitch env h) @
       (case snd (hookSwitch env h) of
          None \<Rightarrow> [LogDebug ''Finished: --before-all-- hook'']
        | Some e \<Rightarrow> [LogError ''--before-all-- hook failed to run:'', LogErrorE e])"
proof -
  define ts0 where "ts0 = initialState project (tests l)"
  define w2 where "w2 = emit [OnTestsStart project ts0, UpdateTests ts0,
                               UpdateConsole (ConsoleText [])]
                          (emit (runHook env ''before-all'' (Some h)) w)"
  have w2: "trace w2 = trace w @ runHook env ''before-all'' (Some h) @
              [OnTestsStart project ts0, UpdateTests ts0, UpdateConsole (ConsoleText [])]"
    "nextWid w2 = nextWid w" "WORKER_POOL w2 = WORKER_POOL w"
    by (simp_all add: w2_def emit_def)
  have len: "0 + length (tests l) \<le> length ts0"
    by (simp add: ts0_def length_initialState)
  have hookpart: "runHook env ''before-all'' (Some h) =
       LogDebug ''Starting: --before-all-- hook'' # fst (hookSwitch env h) @
       (case snd (hookSwitch env h) of
          None \<Rightarrow> [LogDebug ''Finished: --before-all-- hook'']
        | Some e \<Rightarrow> [LogError ''--before-all-- hook failed to run:'', LogErrorE e])"
    using runHook_Some[of env "''before-all''" h]
    by (cases "snd (hookSwitch env h)") simp_all
  show ?thesis
  proof (cases "blockingTests project")
    case True
    define x where "x = \<lparr>wid = nextWid w, wname = BlockingWorker, wrunner = r, exited = False\<rparr>"
    define w4 where "w4 = (let (y, w3) = createWorker BlockingWorker r w2
                           in w3\<lparr>WORKER_POOL := WORKER_POOL w3 @ [y]\<rparr>)"
    have w4: "trace w4 = trace w2 @ [CreateWorker x]"
      by (simp add: w4_def createWorker_def Let_def emit_def x_def w2)
    define posts where "posts = concat (map (\<lambda>(i, t). [UpdateTest ((ts0 ! i)\<lparr>isLoading := True\<rparr>),
                                       PostMessage (nextWid w) (code t) i])
                         (enumerate 0 (tests l)))"
    from postTests_result[OF len, of "nextWid w" w4] obtain ts' w' where
      p: "postTests (nextWid w) (enumerate 0 (tests l)) (ts0, w4) = (ts', w')"
      and tr: "trace w' = trace w4 @ posts"
      and l': "length ts' = length ts0"
      and pt: "\<forall>j. ts' ! j = (if 0 \<le> j \<and> j < 0 + length (tests l)
                      then (ts0 ! j)\<lparr>isLoading := True\<rparr> else ts0 ! j)"
      unfolding posts_def by blast
    have run: "runTests env project l w = (ts', w')"
      using assms True p
      by (simp add: runTests_def runTestsBody_def Let_def ts0_def w2_def w4_def
          createWorker_def nextWid_emit split: prod.splits)
    have new: "newEvents w w' = runHook env ''before-all'' (Some h) @
           [OnTestsStart project ts0, UpdateTests ts0, UpdateConsole (ConsoleText [])] @
           CreateWorker x # posts"
      by (simp add: newEvents_def tr w4 w2)
    have ts': "ts' = map (\<lambda>s. s\<lparr>isLoading := True\<rparr>) ts0"
      by (rule nth_equalityI) (use l' pt len in \<open>simp_all add: ts0_def length_initialState\<close>)
    have "filter hookCall posts = []"
      unfolding posts_def by (rule filter_concat_empty) auto
    then have calls: "filter hookCall (newEvents w w') = fst (hookSwitch env h)"
      by (simp add: new filter_hookCall_runHook)
    show ?thesis
      using run new ts' calls hookpart True
      by (simp add: Let_def ts0_def[symmetric] posts_def x_def)
  next
    case False
    define posts where "posts = concat (map (\<lambda>(i, t). [UpdateTest ((ts0 ! i)\<lparr>isLoading := True\<rparr>),
                                       CreateWorker \<lparr>wid = nextWid w + i, wname = WorkerN i,
                                                     wrunner = runner t, exited = False\<rparr>,
                                       PostMessage (nextWid w + i) (code t) i])
                         (enumerate 0 (tests l)))"
    from spawnTests_result[OF len, of w2] obtain ts' w' where
      p: "spawnTests (enumerate 0 (tests l)) (ts0, w2) = (ts', w')"
      and tr: "trace w' = trace w2 @ posts"
      and l': "length ts' = length ts0"
      and pt: "\<forall>j. ts' ! j = (if 0 \<le> j \<and> j < 0 + length (tests l)
                      then (ts0 ! j)\<lparr>isLoading := True\<rparr> else ts0 ! j)"
      unfolding posts_def by (auto simp: w2)
    have run: "runTests env project l w = (ts', w')"
      using assms False p
      by (simp add: runTests_def runTestsBody_def Let_def ts0_def w2_def)
    have new: "newEvents w w' = runHook env ''before-all'' (Some h) @
           [OnTestsStart project ts0, UpdateTests ts0, UpdateConsole (ConsoleText [])] @ posts"
      by (simp add: newEvents_def tr w2)
    have ts': "ts' = map (\<lambda>s. s\<lparr>isLoading := True\<rparr>) ts0"
      by (rule nth_equalityI) (use l' pt len in \<open>simp_all add: ts0_def length_initialState\<close>)
    have "filter hookCall posts = []"
      unfolding posts_def by (rule filter_concat_empty) auto
    then have calls: "filter hookCall (newEvents w w') = fst (hookSwitch env h)"
      by (simp add: new filter_hookCall_runHook)
    show ?thesis
      using run new ts' calls hookpart False
      by (simp add: Let_def ts0_def[symmetric] posts_def)
  qed
qed

theorem runTests_beforeAll_witness:
  "resolveFirstRunner (testers seededLesson) = Inr ''Node'' \<and>
   checkRunners ''Node'' (testers seededLesson) = None \<and>
   beforeAll seededLesson = Some (nodeHook ''seed()'') \<and>
   (\<exists>ts' w'. runTests failingEnv sampleProject seededLesson emptyWorld = (ts', w') \<and>
      filter hookCall (newEvents emptyWorld w') = [Eval ''seed()''] \<and>
      ts' = map (\<lambda>s. s\<lparr>isLoading := True\<rparr>) (initialState sampleProject (tests seededLesson)) \<and>
      runHook failingEnv ''before-all'' (Some (nodeHook ''seed()'')) =
        [LogDebug ''Starting: --before-all-- hook'', Eval ''seed()'',
         LogError ''--before-all-- hook failed to run:'', LogErrorE (Error ''boom'')])"
proof -
  have a: "resolveFirstRunner (testers seededLesson) = Inr ''Node''"
    by (simp add: resolveFirstRunner_def testers_def seededLesson_def nodeHook_def)
  have b: "checkRunners ''Node'' (testers seededLesson) = None"
    by (simp add: testers_def seededLesson_def nodeHook_def nodeTest_def hook.defs)
  have c: "beforeAll seededLesson = Some (nodeHook ''seed()'')"
    by (simp add: seededLesson_def)
  have sw: "hookSwitch failingEnv (nodeHook ''seed()'') = ([Eval ''seed()''], Some (Error ''boom''))"
    by (simp add: hookSwitch_def failingEnv_def nodeHook_def)
  show ?thesis
    using a b c runTests_beforeAll[OF a b c, of failingEnv sampleProject emptyWorld]
    by (auto simp: sw Let_def)
qed

subsection \<open>Worker exit\<close>

text \<open>
  A worker exits normally and the after-each hook is present, on a runner that no backend
  serves: the handler returns and the aggregation check runs, but the code of the hook is
  never executed; its block fails with the unsupported-runner error, which is logged.
\<close>

theorem handleWorkerExit_afterEach_unsupported_runner:
  "\<exists>ts w'.
     handleWorkerExit sampleEnv 0 [settled True 0] (Some 0)
       (Some \<lparr>runner = ''Ruby'', code = ''cleanup''\<rparr>) sampleProject [] 0 None emptyWorld
       = Inr (ts, w') \<and>
     filter hookCall (newEvents emptyWorld w') = [] \<and>
     newEvents emptyWorld w' =
       [LogDebug ''Starting: --after-each-- hook'',
        LogError ''--after-each-- hook failed to run:'',
        LogErrorE (Error ''Unsupported runner: Ruby''),
        OnLessonPassed sampleProject, ResetBottomPanel,
        SetProjectConfig ''learn-x'' (CurrentLesson 1), RunLesson ''learn-x'',
        OnTestsEnd sampleProject [settled True 0]]"
  by (simp add: run_defs newEvents_def settled_def sampleProject_def emptyWorld_def)

text \<open>
  Claim C6, amended. On every worker exit whose index, when given, is that of a test (as
  it is for the handlers \<^verbatim>\<open>runTests\<close> registers), whatever the exit code,
  \<^verbatim>\<open>handleWorkerExit\<close> returns and its calls are, in this order: those of the cancellation
  block, which run no hook; the guarded block of the after-each hook; the calls of the
  aggregation check, of which there is at least one. A present hook on Node or Python has
  its code executed in its block; for any other runner the block fails with the
  unsupported-runner error and the code is not executed. When the hook throws, its block
  ends with the two error log lines and the aggregation check follows all the same.
\<close>

theorem handleWorkerExit_afterEach_then_check:
  assumes "\<forall>k. i = Some k \<longrightarrow> k < length testsState"
  shows "\<exists>ts evs w'.
     cancelTests exitCode testsState i = Inr (ts, evs) \<and>
     handleWorkerExit env exitCode testsState i afterEach' project hints' lessonNumber afterAll' w
       = Inr (ts, w') \<and>
     newEvents w w' =
       evs @ runHook env ''after-each'' afterEach' @
       checkEvents env project hints' lessonNumber ts afterAll' \<and>
     checkEvents env project hints' lessonNumber ts afterAll' \<noteq> [] \<and>
     \<not> list_ex hookCall evs \<and>
     (\<forall>h. afterEach' = Some h \<longrightarrow>
        (runner h = ''Node'' \<longrightarrow> Eval (code h) \<in> set (runHook env ''after-each'' afterEach')) \<and>
        (runner h = ''Python'' \<longrightarrow>
           RunPython (code h) \<in> set (runHook env ''after-each'' afterEach')) \<and>
        (runner h \<noteq> ''Node'' \<and> runner h \<noteq> ''Python'' \<longrightarrow>
           runHook env ''after-each'' afterEach' =
             [LogDebug ''Starting: --after-each-- hook'',
              LogError ''--after-each-- hook failed to run:'',
              LogErrorE (Error (''Unsupported runner: '' @ runner h))]) \<and>
        (\<forall>c e. hookSwitch env h = (c, Some e) \<longrightarrow>
           runHook env ''after-each'' afterEach' =
             LogDebug ''Starting: --after-each-- hook'' # c @
             [LogError ''--after-each-- hook failed to run:'', LogErrorE e]))"
proof -
  from cancelTests_returns[OF assms] obtain ts evs where
    c: "cancelTests exitCode testsState i = Inr (ts, evs)" by blast
  let ?w' = "checkTestsCallback env project hints' lessonNumber ts afterAll'
               (emit (runHook env ''after-each'' afterEach') (emit evs w))"
  have r: "handleWorkerExit env exitCode testsState i afterEach' project hints' lessonNumber
             afterAll' w = Inr (ts, ?w')"
    by (simp add: handleWorkerExit_def c)
  have n: "newEvents w ?w' =
       evs @ runHook env ''after-each'' afterEach' @
       checkEvents env project hints' lessonNumber ts afterAll'"
    by (simp add: newEvents_def trace_checkTestsCallback trace_emit)
  have hk: "\<forall>h. afterEach' = Some h \<longrightarrow>
        (runner h = ''Node'' \<longrightarrow> Eval (code h) \<in> set (runHook env ''after-each'' afterEach')) \<and>
        (runner h = ''Python'' \<longrightarrow>
           RunPython (code h) \<in> set (runHook env ''after-each'' afterEach')) \<and>
        (runner h \<noteq> ''Node'' \<and> runner h \<noteq> ''Python'' \<longrightarrow>
           runHook env ''after-each'' afterEach' =
             [LogDebug ''Starting: --after-each-- hook'',
              LogError ''--after-each-- hook failed to run:'',
              LogErrorE (Error (''Unsupported runner: '' @ runner h))]) \<and>
        (\<forall>c e. hookSwitch env h = (c, Some e) \<longrightarrow>
           runHook env ''after-each'' afterEach' =
             LogDebug ''Starting: --after-each-- hook'' # c @
             [LogError ''--after-each-- hook failed to run:'', LogErrorE e])"
    by (auto simp: runHook_def hookSwitch_def split: option.splits)
  show ?thesis
    using c r n hk checkEvents_nonempty cancelTests_no_hookCall[OF c] by blast
qed

theorem handleWorkerExit_afterEach_then_check_witness:
  "\<exists>ts evs w'.
     handleWorkerExit failingEnv 1 [loading 0] None (Some (nodeHook ''cleanup()''))
       blockingProject [] 2 None emptyWorld = Inr (ts, w') \<and>
     newEvents emptyWorld w' =
       evs @
       [LogDebug ''Starting: --after-each-- hook'', Eval ''cleanup()'',
        LogError ''--after-each-- hook failed to run:'', LogErrorE (Error ''boom'')] @
       checkEvents failingEnv blockingProject [] 2 ts None \<and>
     checkEvents failingEnv blockingProject [] 2 ts None \<noteq> []"
proof -
  have h: "\<forall>k. (None :: nat option) = Some k \<longrightarrow> k < length [loading 0]" by simp
  have sw: "hookSwitch failingEnv (nodeHook ''cleanup()'') =
              ([Eval ''cleanup()''], Some (Error ''boom''))"
    by (simp add: hookSwitch_def failingEnv_def nodeHook_def)
  from handleWorkerExit_afterEach_then_check
         [OF h, of 1 failingEnv "Some (nodeHook ''cleanup()'')" blockingProject "[]" 2 None
            emptyWorld]
  obtain ts evs w' where
    r: "handleWorkerExit failingEnv 1 [loading 0] None (Some (nodeHook ''cleanup()''))
          blockingProject [] 2 None emptyWorld = Inr (ts, w')"
    and n: "newEvents emptyWorld w' =
       evs @ runHook failingEnv ''after-each'' (Some (nodeHook ''cleanup()'')) @
       checkEvents failingEnv blockingProject [] 2 ts None"
    and ne: "checkEvents failingEnv blockingProject [] 2 ts None \<noteq> []"
    and f: "\<forall>c e. hookSwitch failingEnv (nodeHook ''cleanup()'') = (c, Some e) \<longrightarrow>
           runHook failingEnv ''after-each'' (Some (nodeHook ''cleanup()'')) =
             LogDebug ''Starting: --after-each-- hook'' # c @
             [LogError ''--after-each-- hook failed to run:'', LogErrorE e]"
    by blast
  have "runHook failingEnv ''after-each'' (Some (nodeHook ''cleanup()'')) =
          [LogDebug ''Starting: --after-each-- hook'', Eval ''cleanup()'',
           LogError ''--after-each-- hook failed to run:'', LogErrorE (Error ''boom'')]"
    using f[rule_format, OF sw] by simp
  then show ?thesis using r n ne by auto
qed

subsection \<open>Teardown\<close>

text \<open>
  Two runs share the pool. When the second run reaches its terminal aggregation, the pool
  is emptied: the worker of the first run, whose test is still loading, is removed with it.
\<close>

theorem pool_cleared_across_runs:
  "WORKER_POOL (snd firstRun) =
     [\<lparr>wid = 0, wname = BlockingWorker, wrunner = ''Node'', exited = False\<rparr>] \<and>
   list_all isLoading (fst firstRun) \<and>
   WORKER_POOL (snd secondRun) =
     [\<lparr>wid = 0, wname = BlockingWorker, wrunner = ''Node'', exited = False\<rparr>,
      \<lparr>wid = 1, wname = WorkerN 0, wrunner = ''Node'', exited = False\<rparr>] \<and>
   (\<exists>ts w. secondRunPassed = Inr (ts, w) \<and> WORKER_POOL w = [])"
  by (simp add: secondRunPassed_def secondRun_def firstRun_value run_defs oneTestLesson_def
      nodeHook_def nodeTest_def sampleProject_def enumerate_eq_zip)

text \<open>
  Claim C7, amended. At the terminal aggregation (every test settled), the aggregation
  check makes its progression calls, which run no hook, then runs the guarded block of the
  after-all hook, then sends the tests-end notification, and it empties the process-wide
  worker pool: every worker in it is removed, whichever run created it. Nothing else of
  the world changes.
\<close>

theorem checkTestsCallback_clears_pool:
  assumes "list_all (\<lambda>test. \<not> isLoading test) testsState"
  shows "\<exists>progress.
      checkTestsCallback env project hints' lessonNumber testsState afterAll' w =
        w\<lparr>trace := trace w @ progress @ runHook env ''after-all'' afterAll' @
                    [OnTestsEnd project testsState],
           WORKER_POOL := []\<rparr> \<and>
      \<not> list_ex hookCall progress"
proof (cases "list_all passed testsState")
  case True
  show ?thesis
  proof (cases "isIntegrated project \<or> lessonNumber = numberOfLessons project - 1")
    case fin: True
    have "checkTestsCallback env project hints' lessonNumber testsState afterAll' w =
        w\<lparr>trace := trace w @ [OnLessonPassed project, ResetBottomPanel,
                OnProjectFinished project,
                SetProjectConfig (dashedName project) (CompletedDate (now env)),
                HandleProjectFinish] @ runHook env ''after-all'' afterAll' @
                    [OnTestsEnd project testsState],
           WORKER_POOL := []\<rparr>"
      using assms True fin by (simp add: checkTestsCallback_def Let_def emit_def)
    moreover have "\<not> list_ex hookCall [OnLessonPassed project, ResetBottomPanel,
                OnProjectFinished project,
                SetProjectConfig (dashedName project) (CompletedDate (now env)),
                HandleProjectFinish]" by simp
    ultimately show ?thesis by blast
  next
    case nxt: False
    have "checkTestsCallback env project hints' lessonNumber testsState afterAll' w =
        w\<lparr>trace := trace w @ [OnLessonPassed project, ResetBottomPanel,
                SetProjectConfig (dashedName project) (CurrentLesson (lessonNumber + 1)),
                RunLesson (dashedName project)] @ runHook env ''after-all'' afterAll' @
                    [OnTestsEnd project testsState],
           WORKER_POOL := []\<rparr>"
      using assms True nxt by (simp add: checkTestsCallback_def Let_def emit_def)
    moreover have "\<not> list_ex hookCall [OnLessonPassed project, ResetBottomPanel,
                SetProjectConfig (dashedName project) (CurrentLesson (lessonNumber + 1)),
                RunLesson (dashedName project)]" by simp
    ultimately show ?thesis by blast
  qed
next
  case False
  have "checkTestsCallback env project hints' lessonNumber testsState afterAll' w =
        w\<lparr>trace := trace w @ [OnLessonFailed project, UpdateHints hints'] @
                    runHook env ''after-all'' afterAll' @ [OnTestsEnd project testsState],
           WORKER_POOL := []\<rparr>"
    using assms False by (simp add: checkTestsCallback_def Let_def emit_def)
  moreover have "\<not> list_ex hookCall [OnLessonFailed project, UpdateHints hints']" by simp
  ultimately show ?thesis by blast
qed

theorem checkTestsCallback_clears_pool_witness:
  "list_all (\<lambda>test. \<not> isLoading test) [settled False 0] \<and>
   (\<exists>progress.
      checkTestsCallback sampleEnv sampleProject [] 0 [settled False 0] None (snd secondRun) =
        (snd secondRun)\<lparr>trace := trace (snd secondRun) @ progress @
                            runHook sampleEnv ''after-all'' None @
                            [OnTestsEnd sampleProject [settled False 0]],
           WORKER_POOL := []\<rparr> \<and>
      \<not> list_ex hookCall progress)"
proof -
  have h: "list_all (\<lambda>test. \<not> isLoading test) [settled False 0]"
    by (simp add: settled_def)
  show ?thesis
    using h checkTestsCallback_clears_pool
              [OF h, of sampleEnv sampleProject "[]" 0 None "snd secondRun"]
    by blast
qed

text \<open>
  Claim C1. The teardown block is not guarded against a second execution. In a parallel
  run of one test that ends naturally, the message handler settles the test and runs the
  after-all hook and the tests-end notification; the exit handler of the same worker then
  runs both again. In a cancelled parallel run of two tests of which the second had
  reported, the exit of the first worker settles the last test and runs the teardown, and
  the exit of the second worker runs it again. Likewise, two aggregation checks on the same
  settled state run the hook and send the notification twice.
\<close>

theorem afterAll_runs_twice:
  "(\<exists>ts w. naturalRun = Inr (ts, w) \<and>
      length (filter hookCall (trace w)) = 2 \<and> length (filter testsEnd (trace w)) = 2) \<and>
   (\<exists>ts w. cancelledRun = Inr (ts, w) \<and>
      length (filter hookCall (trace w)) = 2 \<and> length (filter testsEnd (trace w)) = 2) \<and>
   (let w1 = checkTestsCallback sampleEnv sampleProject [] 0 [settled False 0]
               (Some (nodeHook ''cleanup()'')) emptyWorld;
        w2 = checkTestsCallback sampleEnv sampleProject [] 0 [settled False 0]
               (Some (nodeHook ''cleanup()'')) w1
    in count_list (trace w2) (Eval ''cleanup()'') = 2 \<and>
       count_list (trace w2) (OnTestsEnd sampleProject [settled False 0]) = 2)"
  by (simp add: naturalRun_def cancelledRun_def run_defs oneTestLesson_def twoTestLesson_def
      nodeHook_def nodeTest_def sampleProject_def sampleEnv_def emptyWorld_def settled_def enumerate_eq_zip)

end
